theory Spec2Isabelle
  imports Main "HOL-Library.AList"
begin

section \<open>Values, errors and enumerations\<close>

text \<open>
  Modelled from the spec: the enumerations of \<^verbatim>\<open>sagemaker.s3\<close> are imported by
  \<^verbatim>\<open>processor.py\<close> but are not among the sources. The members that the source
  names (\<^verbatim>\<open>S3InputMode.PIPE\<close>, \<^verbatim>\<open>S3InputMode.FILE\<close>, \<^verbatim>\<open>S3CompressionType.GZIP\<close>,
  \<^verbatim>\<open>S3CompressionType.NONE\<close>, \<^verbatim>\<open>S3DataType.MANIFEST_FILE\<close>, \<^verbatim>\<open>S3DownloadMode.CONTINUOUS\<close>,
  \<^verbatim>\<open>S3DataDistributionType.FULLY_REPLICATED\<close>, \<^verbatim>\<open>S3UploadMode.CONTINUOUS\<close>) are kept;
  the second member of each is the one the spec's data model lists (single file versus
  manifest, batch versus streaming, eager versus continuous, full replication versus
  sharded, none versus gzip). \<^verbatim>\<open>S3UploadMode.CONTINUOUS\<close> is written \<open>UPLOAD_CONTINUOUS\<close>,
  since \<^verbatim>\<open>S3DownloadMode\<close> has a member of the same name.
\<close>

datatype S3DataType = MANIFEST_FILE | S3_PREFIX
datatype S3InputMode = PIPE | FILE
datatype S3DownloadMode = START_OF_JOB | CONTINUOUS
datatype S3DataDistributionType = FULLY_REPLICATED | SHARDED_BY_S3_KEY
datatype S3CompressionType = NONE | GZIP
datatype S3UploadMode = END_OF_JOB | UPLOAD_CONTINUOUS

text \<open>
  Python values that travel in a request: \<^verbatim>\<open>None\<close>, strings, integers, lists and
  dictionaries. A dictionary is an association list in insertion order, so that a key
  that is absent and a key that is bound to \<^verbatim>\<open>None\<close> are different values. The
  \<^verbatim>\<open>.value\<close> of an enumeration member is kept as the member itself, since the wire
  strings are declared in the module that is not among the sources.
\<close>

datatype pyval =
    PNone
  | PStr string
  | PInt int
  | PList "pyval list"
  | PDict "(string \<times> pyval) list"
  | PDataTypeValue S3DataType
  | PInputModeValue S3InputMode
  | PDownloadModeValue S3DownloadMode
  | PDistributionValue S3DataDistributionType
  | PCompressionValue S3CompressionType
  | PUploadModeValue S3UploadMode

type_synonym pydict = "(string \<times> pyval) list"

text \<open>The exceptions that the source raises, each with its message.\<close>

datatype error =
    TypeError string
  | ValueError string
  | AttributeError string
  | NotImplementedError

definition has_key :: "pydict \<Rightarrow> string \<Rightarrow> bool" where
  "has_key d k = (k \<in> fst ` set d)"

definition dict_get :: "pydict \<Rightarrow> string \<Rightarrow> pyval option" where
  "dict_get d k = map_of d k"

text \<open>\<^verbatim>\<open>d[k] = v\<close>: the key is rebound in place, or appended when it is new.\<close>

definition dict_set :: "pydict \<Rightarrow> string \<Rightarrow> pyval \<Rightarrow> pydict" where
  "dict_set d k v = AList.update k v d"

definition opt_str :: "string option \<Rightarrow> pyval" where
  "opt_str s = (case s of None \<Rightarrow> PNone | Some x \<Rightarrow> PStr x)"

section \<open>Input and output descriptors\<close>

text \<open>
  \<^verbatim>\<open>class FileInput\<close>. The name may be \<^verbatim>\<open>None\<close>; so may the compression type, which
  \<^verbatim>\<open>to_request_dict\<close> tests with \<^verbatim>\<open>is not None\<close>.
\<close>

record FileInput =
  source :: string
  destination :: string
  input_name :: "string option"
  s3_data_type :: S3DataType
  s3_input_mode :: S3InputMode
  s3_download_mode :: S3DownloadMode
  s3_data_distribution_type :: S3DataDistributionType
  s3_compression_type :: "S3CompressionType option"

text \<open>\<^verbatim>\<open>FileInput.__init__\<close> with its defaults.\<close>

definition FileInput_init :: "string \<Rightarrow> string \<Rightarrow> string option \<Rightarrow> FileInput" where
  "FileInput_init src dst nm =
     \<lparr> source = src, destination = dst, input_name = nm,
       s3_data_type = MANIFEST_FILE, s3_input_mode = FILE,
       s3_download_mode = CONTINUOUS,
       s3_data_distribution_type = FULLY_REPLICATED,
       s3_compression_type = Some NONE \<rparr>"

text \<open>\<^verbatim>\<open>FileInput.to_request_dict\<close> (lines 608-633).\<close>

definition FileInput_to_request_dict :: "FileInput \<Rightarrow> error + pydict" where
  "FileInput_to_request_dict self =
     (let s3_input =
            [(''S3Uri'', PStr (source self)),
             (''LocalPath'', PStr (destination self)),
             (''S3DataType'', PDataTypeValue (s3_data_type self)),
             (''S3InputMode'', PInputModeValue (s3_input_mode self)),
             (''S3DownloadMode'', PDownloadModeValue (s3_download_mode self)),
             (''S3DataDistributionType'', PDistributionValue (s3_data_distribution_type self))]
      in if s3_compression_type self = Some GZIP \<and> s3_input_mode self \<noteq> PIPE
         then Inl (ValueError ''Data can only be gzipped when the input mode is Pipe.'')
         else Inr [(''InputName'', opt_str (input_name self)),
                   (''S3Input'',
                    PDict (case s3_compression_type self of
                             None \<Rightarrow> s3_input
                           | Some c \<Rightarrow> dict_set s3_input ''S3CompressionType'' (PCompressionValue c)))])"

text \<open>The \<^verbatim>\<open>S3Input\<close> fragment of a serialized input, when there is one.\<close>

definition s3_input_of :: "pydict \<Rightarrow> pydict option" where
  "s3_input_of d = (case dict_get d ''S3Input'' of Some (PDict f) \<Rightarrow> Some f | _ \<Rightarrow> None)"

text \<open>
  \<^verbatim>\<open>class FileOutput\<close>. The fields \<^verbatim>\<open>source\<close> and \<^verbatim>\<open>destination\<close> bear the names they
  have in \<^verbatim>\<open>FileInput\<close>; where both are in scope they are written qualified.
\<close>

record FileOutput =
  source :: string
  destination :: string
  output_name :: "string option"
  kms_key_id :: "string option"
  s3_upload_mode :: S3UploadMode

text \<open>\<^verbatim>\<open>FileOutput.__init__\<close> with its defaults.\<close>

definition FileOutput_init :: "string \<Rightarrow> string \<Rightarrow> FileOutput" where
  "FileOutput_init src dst =
     \<lparr> FileOutput.source = src, FileOutput.destination = dst, output_name = None,
       kms_key_id = None, s3_upload_mode = UPLOAD_CONTINUOUS \<rparr>"

text \<open>\<^verbatim>\<open>FileOutput.to_request_dict\<close> (lines 665-682).\<close>

definition FileOutput_to_request_dict :: "FileOutput \<Rightarrow> pydict" where
  "FileOutput_to_request_dict self =
     (let s3_output =
            [(''S3Uri'', PStr (FileOutput.destination self)),
             (''LocalPath'', PStr (FileOutput.source self)),
             (''S3UploadMode'', PUploadModeValue (s3_upload_mode self))]
      in [(''OutputName'', opt_str (output_name self)),
          (''S3Output'',
           PDict (case kms_key_id self of
                    None \<Rightarrow> s3_output
                  | Some k \<Rightarrow> dict_set s3_output ''KmsKeyId'' (PStr k)))])"


section \<open>Paths and names\<close>

text \<open>
  \<^verbatim>\<open>os.path.join(a, *p)\<close> of \<^verbatim>\<open>posixpath\<close>: a component that begins with the separator
  replaces what was joined so far; otherwise it is appended, after a separator unless the
  path so far is empty or already ends with one.
\<close>

definition starts_with_sep :: "string \<Rightarrow> bool" where
  "starts_with_sep b = (case b of [] \<Rightarrow> False | c # _ \<Rightarrow> c = CHR ''/'')"

definition ends_with_sep :: "string \<Rightarrow> bool" where
  "ends_with_sep p = (case rev p of [] \<Rightarrow> False | c # _ \<Rightarrow> c = CHR ''/'')"

fun path_join :: "string \<Rightarrow> string list \<Rightarrow> string" where
  "path_join path [] = path"
| "path_join path (b # p) =
     path_join (if starts_with_sep b then b
                else if path = [] \<or> ends_with_sep path then path @ b
                else path @ ''/'' @ b) p"

text \<open>\<^verbatim>\<open>os.path.basename\<close>: what follows the last separator.\<close>

definition basename :: "string \<Rightarrow> string" where
  "basename p = rev (takeWhile (\<lambda>c. c \<noteq> CHR ''/'') (rev p))"

text \<open>
  \<^verbatim>\<open>os.path.splitext(p)[1]\<close>: the extension starts at the last dot of the final path
  segment, and is empty when that segment has no dot or has only dots before that one.
\<close>

definition segment_ext :: "string \<Rightarrow> string" where
  "segment_ext name =
     (if CHR ''.'' \<notin> set name then []
      else let ext = CHR ''.'' # rev (takeWhile (\<lambda>c. c \<noteq> CHR ''.'') (rev name));
               stem = rev (tl (dropWhile (\<lambda>c. c \<noteq> CHR ''.'') (rev name)))
           in if \<exists>c \<in> set stem. c \<noteq> CHR ''.'' then ext else [])"

definition splitext_ext :: "string \<Rightarrow> string" where
  "splitext_ext p = segment_ext (basename p)"

text \<open>\<^verbatim>\<open>str.endswith\<close>.\<close>

definition ends_with :: "string \<Rightarrow> string \<Rightarrow> bool" where
  "ends_with s suffix =
     (length suffix \<le> length s \<and> drop (length s - length suffix) s = suffix)"

text \<open>\<^verbatim>\<open>str\<close> of a natural number, as \<^verbatim>\<open>"input-{}".format(count)\<close> prints it.\<close>

fun str_of_nat :: "nat \<Rightarrow> string" where
  "str_of_nat n =
     (if n < 10 then [''0123456789'' ! n]
      else str_of_nat (n div 10) @ [''0123456789'' ! (n mod 10)])"

declare str_of_nat.simps [simp del]

section \<open>Collaborators and the world\<close>

text \<open>
  What lies outside \<^verbatim>\<open>processor.py\<close> is a parameter of the model. A \<open>collab\<close> gives what
  each collaborator returns: the session's default bucket, the URI that
  \<^verbatim>\<open>S3Uploader.upload\<close> returns for a local path and a desired URI, the scheme that
  \<^verbatim>\<open>urlparse\<close> finds, the file system's \<^verbatim>\<open>os.path.isdir\<close> and \<^verbatim>\<open>os.path.isfile\<close>, the
  two name helpers of \<^verbatim>\<open>sagemaker.utils\<close>, and the response of the describe call.
  \<^verbatim>\<open>name_from_base\<close> appends a suffix taken from the time of the call, so it is given the
  clock reading as well as the base name.
\<close>

record collab =
  default_bucket :: string
  upload :: "string \<Rightarrow> string \<Rightarrow> string"
  urlparse_scheme :: "string \<Rightarrow> string"
  isdir :: "string \<Rightarrow> bool"
  isfile :: "string \<Rightarrow> bool"
  base_name_from_image :: "string \<Rightarrow> string"
  name_from_base :: "string \<Rightarrow> nat \<Rightarrow> string"
  describe_response :: "string option \<Rightarrow> pyval"

text \<open>The calls that reach the session and the uploader, with their arguments.\<close>

datatype call =
    Upload string string
  | Process pydict
  | LogsForProcessingJob "string option" bool
  | WaitForProcessingJob "string option"
  | DescribeAnalyticsJob "string option"
  | StopProcessingJob "string option"

text \<open>
  The world is what the calls change: the trace of collaborator calls in the order they
  were made, the lines printed, and the clock, which each generated name advances.
\<close>

record world =
  calls :: "call list"
  printed :: "pyval list list"
  clock :: nat

definition do_call :: "call \<Rightarrow> world \<Rightarrow> world" where
  "do_call c w = w\<lparr>calls := calls w @ [c]\<rparr>"

definition print :: "pyval list \<Rightarrow> world \<Rightarrow> world" where
  "print line w = w\<lparr>printed := printed w @ [line]\<rparr>"

section \<open>The job record\<close>

text \<open>
  \<^verbatim>\<open>class ProcessingJob(_Job)\<close>. The session it holds is the ambient one (the
  collaborators and the world); the job name is \<^verbatim>\<open>processor._current_job_name\<close>, which is
  \<^verbatim>\<open>None\<close> until a run sets it.
\<close>

text \<open>
  Modelled from the spec: the class \<^verbatim>\<open>NetworkConfig\<close> of \<^verbatim>\<open>sagemaker.network\<close> is not among
  the sources. The spec says only that a network policy, when present, is serialized; an
  object is represented by what its \<^verbatim>\<open>to_request_dict\<close> returns.
\<close>

datatype NetworkConfig = NetworkConfig (nc_to_request_dict: pyval)

record ProcessingJob =
  job_name :: "string option"
  inputs :: "FileInput list"
  outputs :: "FileOutput list"

text \<open>
  Modelled from the spec: the base class \<^verbatim>\<open>_Job\<close> of \<^verbatim>\<open>sagemaker.job\<close> is not among the
  sources. Its constructor stores the session and the job name, and the attribute
  \<^verbatim>\<open>name\<close> that \<^verbatim>\<open>stop\<close> reads is the job name: the spec makes the job name the sole key
  of every operation on a submitted job.
\<close>

definition name :: "ProcessingJob \<Rightarrow> string option" where
  "name self = job_name self"

definition ProcessingJob_init ::
  "string option \<Rightarrow> FileInput list \<Rightarrow> FileOutput list \<Rightarrow> ProcessingJob" where
  "ProcessingJob_init jn ins outs = \<lparr> job_name = jn, inputs = ins, outputs = outs \<rparr>"

text \<open>\<^verbatim>\<open>ProcessingJob.wait\<close>, \<^verbatim>\<open>describe\<close> and \<^verbatim>\<open>stop\<close> (lines 551-566), on the state made
  of the record and the world.\<close>

definition wait :: "bool \<Rightarrow> ProcessingJob \<times> world \<Rightarrow> ProcessingJob \<times> world" where
  "wait logs st =
     (case st of (self, w) \<Rightarrow>
        if logs then (self, do_call (LogsForProcessingJob (job_name self) True) w)
        else (self, do_call (WaitForProcessingJob (job_name self)) w))"

definition describe ::
  "collab \<Rightarrow> bool \<Rightarrow> ProcessingJob \<times> world \<Rightarrow> pyval \<times> (ProcessingJob \<times> world)" where
  "describe c print_response st =
     (case st of (self, w) \<Rightarrow>
        let describe_response = describe_response c (job_name self);
            w1 = do_call (DescribeAnalyticsJob (job_name self)) w;
            w2 = (if print_response then print [describe_response] w1 else w1)
        in (describe_response, (self, w2)))"

definition stop :: "ProcessingJob \<times> world \<Rightarrow> ProcessingJob \<times> world" where
  "stop st = (case st of (self, w) \<Rightarrow> (self, do_call (StopProcessingJob (name self)) w))"

section \<open>The processor\<close>

text \<open>
  \<^verbatim>\<open>class Processor\<close>: the fields that \<^verbatim>\<open>__init__\<close> sets, with \<^verbatim>\<open>_current_job_name\<close>
  written \<open>current_job_name\<close>. The session is the ambient one.
\<close>

record Processor =
  role :: string
  image_uri :: string
  processing_instance_count :: int
  processing_instance_type :: string
  entrypoint :: "string list option"
  arguments :: "string list option"
  processing_volume_size_in_gb :: int
  processing_volume_kms_key :: "string option"
  processing_max_runtime_in_seconds :: int
  base_job_name :: "string option"
  env :: "pydict option"
  tags :: "pydict list option"
  network_config :: "NetworkConfig option"
  jobs :: "ProcessingJob list"
  latest_job :: "ProcessingJob option"
  current_job_name :: "string option"

text \<open>\<^verbatim>\<open>Processor.__init__\<close> with the four required arguments and every default.\<close>

definition Processor_init :: "string \<Rightarrow> string \<Rightarrow> int \<Rightarrow> string \<Rightarrow> Processor" where
  "Processor_init r img cnt ty =
     \<lparr> role = r, image_uri = img, processing_instance_count = cnt,
       processing_instance_type = ty, entrypoint = None, arguments = None,
       processing_volume_size_in_gb = 30, processing_volume_kms_key = None,
       processing_max_runtime_in_seconds = 24 * 60 * 60, base_job_name = None,
       env = None, tags = None, network_config = None,
       jobs = [], latest_job = None, current_job_name = None \<rparr>"

text \<open>
  \<^verbatim>\<open>Processor._generate_current_job_name\<close> (lines 142-161). A supplied name is returned
  as it is; otherwise a name is generated from the base name, which reads the clock.
\<close>

definition generate_current_job_name ::
  "collab \<Rightarrow> 'a Processor_scheme \<Rightarrow> string option \<Rightarrow> world \<Rightarrow> string \<times> world" where
  "generate_current_job_name c self jn w =
     (case jn of
        Some n \<Rightarrow> (n, w)
      | None \<Rightarrow>
          let base_name =
                (if base_job_name self \<noteq> None \<and> base_job_name self \<noteq> Some []
                 then case base_job_name self of Some b \<Rightarrow> b | None \<Rightarrow> []
                 else base_name_from_image c (image_uri self))
          in (name_from_base c base_name (clock w), w\<lparr>clock := Suc (clock w)\<rparr>))"

text \<open>
  An element of the caller's \<^verbatim>\<open>inputs\<close> list is a \<^verbatim>\<open>FileInput\<close> or some other value; an
  element of the \<^verbatim>\<open>outputs\<close> list is a string, a \<^verbatim>\<open>FileOutput\<close> or some other value,
  which has no attribute \<^verbatim>\<open>output_name\<close>.
\<close>

datatype raw_input = InputObj FileInput | InputOther pyval

datatype raw_output = OutputStr string | OutputObj FileOutput | OutputOther pyval

text \<open>
  \<^verbatim>\<open>Processor._normalize_inputs\<close> (lines 163-201). The loop carries the 1-based count,
  the list normalized so far and the world. \<^verbatim>\<open>os.path.join\<close> raises when the job name
  is still \<^verbatim>\<open>None\<close>.
\<close>

fun normalize_inputs_loop ::
  "collab \<Rightarrow> 'a Processor_scheme \<Rightarrow> nat \<Rightarrow> raw_input list \<Rightarrow> FileInput list \<Rightarrow> world
     \<Rightarrow> (error + FileInput list) \<times> world" where
  "normalize_inputs_loop c self count [] normalized_inputs w = (Inr normalized_inputs, w)"
| "normalize_inputs_loop c self count (InputOther v # rest) normalized_inputs w =
     (Inl (TypeError ''Your inputs must be provided as FileInput objects.''), w)"
| "normalize_inputs_loop c self count (InputObj file_input # rest) normalized_inputs w =
     (let nm = (case input_name file_input of
                  None \<Rightarrow> ''input-'' @ str_of_nat count
                | Some n \<Rightarrow> n);
          file_input1 = file_input\<lparr>input_name := Some nm\<rparr>
      in if urlparse_scheme c (FileInput.source file_input1) \<noteq> ''s3''
         then (case current_job_name self of
                 None \<Rightarrow> (Inl (TypeError ''join''), w)
               | Some job \<Rightarrow>
                   let desired_s3_uri = path_join ''s3://'' [default_bucket c, job, nm];
                       s3_uri = upload c (FileInput.source file_input1) desired_s3_uri;
                       w1 = do_call (Upload (FileInput.source file_input1) desired_s3_uri) w
                   in normalize_inputs_loop c self (Suc count) rest
                        (normalized_inputs @ [file_input1\<lparr>FileInput.source := s3_uri\<rparr>]) w1)
         else normalize_inputs_loop c self (Suc count) rest
                (normalized_inputs @ [file_input1]) w)"

definition normalize_inputs ::
  "collab \<Rightarrow> 'a Processor_scheme \<Rightarrow> raw_input list option \<Rightarrow> world
     \<Rightarrow> (error + FileInput list) \<times> world" where
  "normalize_inputs c self ins w =
     (case ins of
        None \<Rightarrow> (Inr [], w)
      | Some l \<Rightarrow> normalize_inputs_loop c self 1 l [] w)"

text \<open>\<^verbatim>\<open>Processor._normalize_outputs\<close> (lines 203-234).\<close>

definition name_output :: "nat \<Rightarrow> FileOutput \<Rightarrow> FileOutput" where
  "name_output count output =
     (case output_name output of
        None \<Rightarrow> output\<lparr>output_name := Some (''output-'' @ str_of_nat count)\<rparr>
      | Some n \<Rightarrow> output)"

fun normalize_outputs_loop ::
  "collab \<Rightarrow> 'a Processor_scheme \<Rightarrow> nat \<Rightarrow> raw_output list \<Rightarrow> FileOutput list \<Rightarrow> world
     \<Rightarrow> (error + FileOutput list) \<times> world" where
  "normalize_outputs_loop c self count [] normalized_outputs w = (Inr normalized_outputs, w)"
| "normalize_outputs_loop c self count (OutputStr s # rest) normalized_outputs w =
     (case current_job_name self of
        None \<Rightarrow> (Inl (TypeError ''join''), w)
      | Some job \<Rightarrow>
          let s3_uri = path_join ''s3://'' [default_bucket c, job, ''output''];
              output = FileOutput_init s s3_uri
          in normalize_outputs_loop c self (Suc count) rest
               (normalized_outputs @ [name_output count output]) w)"
| "normalize_outputs_loop c self count (OutputObj output # rest) normalized_outputs w =
     normalize_outputs_loop c self (Suc count) rest
       (normalized_outputs @ [name_output count output]) w"
| "normalize_outputs_loop c self count (OutputOther v # rest) normalized_outputs w =
     (Inl (AttributeError ''output_name''), w)"

definition normalize_outputs ::
  "collab \<Rightarrow> 'a Processor_scheme \<Rightarrow> raw_output list option \<Rightarrow> world
     \<Rightarrow> (error + FileOutput list) \<times> world" where
  "normalize_outputs c self outs w =
     (case outs of
        None \<Rightarrow> (Inr [], w)
      | Some l \<Rightarrow> normalize_outputs_loop c self 1 l [] w)"

section \<open>Submission\<close>

text \<open>
  The list comprehension \<^verbatim>\<open>[input.to_request_dict() for input in inputs]\<close>: the first
  descriptor that fails to serialize ends it.
\<close>

fun to_request_dicts :: "FileInput list \<Rightarrow> error + pydict list" where
  "to_request_dicts [] = Inr []"
| "to_request_dicts (x # xs) =
     (case FileInput_to_request_dict x of
        Inl e \<Rightarrow> Inl e
      | Inr d \<Rightarrow> (case to_request_dicts xs of Inl e \<Rightarrow> Inl e | Inr ds \<Rightarrow> Inr (d # ds)))"

text \<open>
  The dictionary \<^verbatim>\<open>process_request_args\<close> that \<^verbatim>\<open>ProcessingJob.start_new\<close> builds (lines
  505-532), from the serialized inputs and outputs.
\<close>

definition process_request_args ::
  "'a Processor_scheme \<Rightarrow> pydict list \<Rightarrow> pydict list \<Rightarrow> pydict" where
  "process_request_args processor ins outs =
     (let a1 = dict_set [] ''inputs'' (PList (map PDict ins));
          a2 = dict_set a1 ''outputs'' (PList (map PDict outs));
          a3 = dict_set a2 ''job_name'' (opt_str (current_job_name processor));
          a4 = dict_set a3 ''resources''
                 (PDict [(''ClusterConfig'',
                          PDict [(''InstanceType'', PStr (processing_instance_type processor)),
                                 (''InstanceCount'', PInt (processing_instance_count processor)),
                                 (''VolumeSizeInGB'', PInt (processing_volume_size_in_gb processor))])]);
          a5 = dict_set a4 ''stopping_condition''
                 (PDict [(''MaxRuntimeInSeconds'',
                          PInt (processing_max_runtime_in_seconds processor))]);
          app0 = [(''ImageUri'', PStr (image_uri processor))];
          app1 = (case arguments processor of
                    None \<Rightarrow> app0
                  | Some a \<Rightarrow> dict_set app0 ''ContainerArguments'' (PList (map PStr a)));
          app2 = (case entrypoint processor of
                    None \<Rightarrow> app1
                  | Some e \<Rightarrow> dict_set app1 ''ContainerEntrypoint'' (PList (map PStr e)));
          a6 = dict_set a5 ''app_specification'' (PDict app2);
          a7 = dict_set a6 ''environment''
                 (case env processor of None \<Rightarrow> PNone | Some e \<Rightarrow> PDict e);
          a8 = dict_set a7 ''network_config''
                 (case network_config processor of
                    Some nc \<Rightarrow> nc_to_request_dict nc
                  | None \<Rightarrow> PNone);
          a9 = dict_set a8 ''role_arn'' (PStr (role processor));
          a10 = dict_set a9 ''tags''
                  (case tags processor of None \<Rightarrow> PNone | Some t \<Rightarrow> PList (map PDict t))
      in a10)"

text \<open>
  \<^verbatim>\<open>ProcessingJob.start_new\<close> (lines 489-542): serialize, build the arguments, print,
  call \<^verbatim>\<open>sagemaker_session.process\<close> with them, and return the job record.
\<close>

definition start_new ::
  "'a Processor_scheme \<Rightarrow> FileInput list \<Rightarrow> FileOutput list \<Rightarrow> world
     \<Rightarrow> (error + ProcessingJob) \<times> world" where
  "start_new processor ins outs w =
     (case to_request_dicts ins of
        Inl e \<Rightarrow> (Inl e, w)
      | Inr in_dicts \<Rightarrow>
          let out_dicts = map FileOutput_to_request_dict outs;
              args = process_request_args processor in_dicts out_dicts;
              w1 = print [PStr ''Job Name: '', opt_str (current_job_name processor)] w;
              w2 = print [PStr ''Inputs: '', PList (map PDict in_dicts)] w1;
              w3 = print [PStr ''Outputs: '', PList (map PDict out_dicts)] w2;
              w4 = do_call (Process args) w3
          in (Inr (ProcessingJob_init (current_job_name processor) ins outs), w4))"

text \<open>
  \<^verbatim>\<open>Processor.run\<close> (lines 117-140), on the state made of the processor and the world.
  What was assigned to \<^verbatim>\<open>self\<close> before an exception stays assigned.
\<close>

definition run ::
  "collab \<Rightarrow> raw_input list option \<Rightarrow> raw_output list option \<Rightarrow> bool \<Rightarrow> bool
     \<Rightarrow> string option \<Rightarrow> 'a Processor_scheme \<times> world
     \<Rightarrow> (error + unit) \<times> ('a Processor_scheme \<times> world)" where
  "run c ins outs do_wait logs jn st =
     (case st of (self, w) \<Rightarrow>
        (case generate_current_job_name c self jn w of (nm, w1) \<Rightarrow>
           let self1 = self\<lparr>current_job_name := Some nm\<rparr>
           in (case normalize_inputs c self1 ins w1 of
                 (Inl e, w2) \<Rightarrow> (Inl e, (self1, w2))
               | (Inr normalized_inputs, w2) \<Rightarrow>
                   (case normalize_outputs c self1 outs w2 of
                      (Inl e, w3) \<Rightarrow> (Inl e, (self1, w3))
                    | (Inr normalized_outputs, w3) \<Rightarrow>
                        (case start_new self1 normalized_inputs normalized_outputs w3 of
                           (Inl e, w4) \<Rightarrow> (Inl e, (self1, w4))
                         | (Inr job, w4) \<Rightarrow>
                             let self2 = self1\<lparr>latest_job := Some job,
                                                jobs := jobs self1 @ [job]\<rparr>
                             in if do_wait
                                then (Inr (), (self2, snd (wait logs (job, w4))))
                                else (Inr (), (self2, w4)))))))"

section \<open>Script mode\<close>

text \<open>
  \<^verbatim>\<open>class ScriptModeProcessor(Processor)\<close> adds the language-version tag. The two
  attributes that \<^verbatim>\<open>__init__\<close> sets to fixed strings and that nothing assigns again are
  constants.
\<close>

record ScriptModeProcessor = Processor +
  py_version :: string

definition CODE_CONTAINER_BASE_PATH :: string where
  "CODE_CONTAINER_BASE_PATH = ''/code/''"

definition CODE_CONTAINER_INPUT_NAME :: string where
  "CODE_CONTAINER_INPUT_NAME = ''source''"

definition ScriptModeProcessor_init ::
  "string \<Rightarrow> string \<Rightarrow> int \<Rightarrow> string \<Rightarrow> ScriptModeProcessor" where
  "ScriptModeProcessor_init r img cnt ty =
     Processor.extend (Processor_init r img cnt ty) \<lparr> py_version = ''py3'' \<rparr>"

definition missing_script_name_message :: string where
  "missing_script_name_message =
     ''You provided a directory without providing a script name.'' @ [CHR 0x0A]
     @ replicate 16 (CHR '' '')
     @ ''Please provide a script name inside the directory that you specified.'' @ [CHR 0x0A]
     @ replicate 16 (CHR '' '')"

definition unsupported_script_message :: string where
  "unsupported_script_message =
     ''Script Mode supports Python or Bash scripts.'' @ [CHR 0x0A]
     @ replicate 12 (CHR '' '')
     @ ''To use a custom entrypoint, please use Processor.'' @ [CHR 0x0A]
     @ replicate 12 (CHR '' '')"

text \<open>\<^verbatim>\<open>ScriptModeProcessor._get_customer_script_name\<close> (lines 372-399).\<close>

definition get_customer_script_name ::
  "collab \<Rightarrow> string \<Rightarrow> string option \<Rightarrow> error + string" where
  "get_customer_script_name c src script_name =
     (if isdir c src \<and> script_name = None
      then Inl (ValueError missing_script_name_message)
      else if (urlparse_scheme c src = ''s3'' \<or> isdir c src) \<and> script_name \<noteq> None
      then (case script_name of Some n \<Rightarrow> Inr n | None \<Rightarrow> Inr [])
      else if urlparse_scheme c src = ''s3'' \<or> isfile c src
      then Inr (basename src)
      else Inl (ValueError ''The file or directory you specified does not exist.''))"

text \<open>\<^verbatim>\<open>ScriptModeProcessor._upload_source\<close> (lines 401-420).\<close>

definition upload_source ::
  "collab \<Rightarrow> 'a Processor_scheme \<Rightarrow> string \<Rightarrow> world \<Rightarrow> (error + string) \<times> world" where
  "upload_source c self src w =
     (case current_job_name self of
        None \<Rightarrow> (Inl (TypeError ''join''), w)
      | Some job \<Rightarrow>
          let desired_s3_uri =
                path_join ''s3://'' [default_bucket c, job, CODE_CONTAINER_INPUT_NAME]
          in (Inr (upload c src desired_s3_uri), do_call (Upload src desired_s3_uri) w))"

text \<open>
  \<^verbatim>\<open>ScriptModeProcessor._convert_source_and_add_to_inputs\<close> (lines 422-441): the list is
  the caller's own, and \<^verbatim>\<open>None\<close> has no \<^verbatim>\<open>append\<close>.
\<close>

definition convert_source_and_add_to_inputs ::
  "raw_input list option \<Rightarrow> string \<Rightarrow> error + raw_input list" where
  "convert_source_and_add_to_inputs ins s3_uri =
     (let input_list = ins;
          source_file_input =
            FileInput_init s3_uri
              (path_join CODE_CONTAINER_BASE_PATH [CODE_CONTAINER_INPUT_NAME])
              (Some CODE_CONTAINER_INPUT_NAME)
      in case input_list of
           None \<Rightarrow> Inl (AttributeError ''append'')
         | Some l \<Rightarrow> Inr (l @ [InputObj source_file_input]))"

text \<open>\<^verbatim>\<open>ScriptModeProcessor._get_execution_program\<close> (lines 443-466).\<close>

definition get_execution_program ::
  "'a ScriptModeProcessor_scheme \<Rightarrow> string \<Rightarrow> error + string" where
  "get_execution_program self script_name =
     (let file_extension = splitext_ext script_name
      in if file_extension = ''.py''
         then (if py_version self = ''py3'' then Inr ''python3''
               else if py_version self = ''py2'' then Inr ''python2''
               else Inr ''python'')
         else if file_extension = ''.sh'' then Inr ''bash''
         else Inl (ValueError unsupported_script_message))"

text \<open>\<^verbatim>\<open>ScriptModeProcessor._set_entrypoint\<close> (lines 468-478).\<close>

definition set_entrypoint ::
  "'a ScriptModeProcessor_scheme \<Rightarrow> string \<Rightarrow> error + 'a ScriptModeProcessor_scheme" where
  "set_entrypoint self customer_script_name =
     (let customer_script_location =
            path_join CODE_CONTAINER_BASE_PATH [CODE_CONTAINER_INPUT_NAME, customer_script_name]
      in case get_execution_program self customer_script_name of
           Inl e \<Rightarrow> Inl e
         | Inr execution_program \<Rightarrow>
             Inr (self\<lparr>entrypoint := Some [execution_program, customer_script_location]\<rparr>))"

text \<open>
  \<^verbatim>\<open>ScriptModeProcessor.run\<close> (lines 331-370). It sets the current job name, resolves the
  script name, uploads the source, appends the source input, sets the entrypoint and calls
  \<^verbatim>\<open>Processor.run\<close> with the same \<^verbatim>\<open>job_name\<close> argument it was given.
\<close>

definition script_run ::
  "collab \<Rightarrow> string \<Rightarrow> string option \<Rightarrow> raw_input list option \<Rightarrow> raw_output list option
     \<Rightarrow> bool \<Rightarrow> bool \<Rightarrow> string option \<Rightarrow> 'a ScriptModeProcessor_scheme \<times> world
     \<Rightarrow> (error + unit) \<times> ('a ScriptModeProcessor_scheme \<times> world)" where
  "script_run c src script_name ins outs do_wait logs jn st =
     (case st of (self, w) \<Rightarrow>
        (case generate_current_job_name c self jn w of (nm, w1) \<Rightarrow>
           let self1 = self\<lparr>current_job_name := Some nm\<rparr>
           in (case get_customer_script_name c src script_name of
                 Inl e \<Rightarrow> (Inl e, (self1, w1))
               | Inr customer_script_name \<Rightarrow>
                   (case upload_source c self1 src w1 of
                      (Inl e, w2) \<Rightarrow> (Inl e, (self1, w2))
                    | (Inr customer_code_s3_uri, w2) \<Rightarrow>
                        (case convert_source_and_add_to_inputs ins customer_code_s3_uri of
                           Inl e \<Rightarrow> (Inl e, (self1, w2))
                         | Inr inputs_with_source \<Rightarrow>
                             (case set_entrypoint self1 customer_script_name of
                                Inl e \<Rightarrow> (Inl e, (self1, w2))
                              | Inr self2 \<Rightarrow>
                                  run c (Some inputs_with_source) outs do_wait logs jn
                                    (self2, w2)))))))"

text \<open>\<^verbatim>\<open>Processor.attach\<close> (line 250).\<close>

definition attach :: "string \<Rightarrow> error + unit" where
  "attach processing_job_name = Inl NotImplementedError"

section \<open>Example inputs\<close>

text \<open>A world in which nothing has happened yet, and a processor as the constructor leaves it.\<close>

definition demo_world :: world where
  "demo_world = \<lparr> calls = [], printed = [], clock = 0 \<rparr>"

definition demo_processor :: Processor where
  "demo_processor = Processor_init ''role'' ''image'' 1 ''ml.m5.xlarge''"

text \<open>
  Collaborators for the examples: the uploader returns the URI it was asked for, the
  scheme of a string is what precedes its first colon, the file system has the directory
  \<^verbatim>\<open>dir/\<close> and the files \<^verbatim>\<open>script.sh\<close> and \<^verbatim>\<open>script.py\<close>, and a generated name is the base
  name followed by the clock reading.
\<close>

definition demo_scheme :: "string \<Rightarrow> string" where
  "demo_scheme s = (if CHR '':'' \<in> set s then takeWhile (\<lambda>c. c \<noteq> CHR '':'') s else [])"

definition demo_collab :: collab where
  "demo_collab =
     \<lparr> default_bucket = ''bucket'',
       upload = (\<lambda>local_path desired_s3_uri. desired_s3_uri),
       urlparse_scheme = demo_scheme,
       isdir = (\<lambda>p. p = ''dir/''),
       isfile = (\<lambda>p. p = ''script.sh'' \<or> p = ''script.py''),
       base_name_from_image = (\<lambda>img. img),
       name_from_base = (\<lambda>base t. base @ ''-'' @ str_of_nat t),
       describe_response = (\<lambda>jn. PDict [(''ProcessingJobName'', opt_str jn)]) \<rparr>"

section \<open>One round of a normalizing loop\<close>





text \<open>
  A path component is plain when it is not empty and neither begins nor ends with the
  separator, as bucket names, job names and generated names are.
\<close>

definition plain_component :: "string \<Rightarrow> bool" where
  "plain_component s = (s \<noteq> [] \<and> \<not> starts_with_sep s \<and> \<not> ends_with_sep s)"

text \<open>
  A processor whose current job name is set, and a list of three inputs: a remote one
  without a name, a local one with a name, and a local one without a name.
\<close>

definition demo_named_processor :: Processor where
  "demo_named_processor = demo_processor\<lparr>current_job_name := Some ''job''\<rparr>"


text \<open>
  Likewise for \<^verbatim>\<open>_normalize_outputs\<close>: what a round that does not raise appends for the
  element at a given count.
\<close>

definition normalized_output :: "collab \<Rightarrow> string option \<Rightarrow> nat \<Rightarrow> raw_output \<Rightarrow> FileOutput" where
  "normalized_output c jn count x =
     name_output count
       (case x of
          OutputStr s \<Rightarrow>
            FileOutput_init s
              (path_join ''s3://''
                 [default_bucket c, (case jn of Some job \<Rightarrow> job | None \<Rightarrow> []), ''output''])
        | OutputObj output \<Rightarrow> output
        | OutputOther v \<Rightarrow> FileOutput_init [] [])"

definition demo_outputs :: "raw_output list" where
  "demo_outputs =
     [OutputStr ''/opt/ml/out'',
      OutputObj ((FileOutput_init ''/opt/ml/res'' ''s3://bucket/res'')\<lparr>output_name := Some ''res''\<rparr>),
      OutputStr ''/opt/ml/more'']"

text \<open>A script-mode processor as its constructor leaves it, with the tag \<^verbatim>\<open>py3\<close>.\<close>

definition demo_script_processor :: ScriptModeProcessor where
  "demo_script_processor = ScriptModeProcessor_init ''role'' ''image'' 1 ''ml.m5.xlarge''"

text \<open>
  Two readings of a trace: the URIs that the uploads were asked for, and the job names of
  the submissions.
\<close>

definition uploaded_to :: "world \<Rightarrow> string list" where
  "uploaded_to w = concat (map (\<lambda>c. case c of Upload l d \<Rightarrow> [d] | _ \<Rightarrow> []) (calls w))"

definition submitted_names :: "world \<Rightarrow> pyval list" where
  "submitted_names w =
     concat (map (\<lambda>c. case c of
                         Process a \<Rightarrow> (case dict_get a ''job_name'' of Some v \<Rightarrow> [v] | None \<Rightarrow> [])
                       | _ \<Rightarrow> [])
                 (calls w))"

section \<open>Serialization of an input descriptor\<close>

text \<open>
  C1. Serializing an input descriptor raises, and what it raises is the validation error
  \<^verbatim>\<open>ValueError\<close>, if and only if its compression type is \<^verbatim>\<open>GZIP\<close> while its input mode
  is not \<^verbatim>\<open>PIPE\<close>. A descriptor with compression \<^verbatim>\<open>GZIP\<close> and input mode \<^verbatim>\<open>PIPE\<close>
  serializes, and the \<^verbatim>\<open>S3Input\<close> fragment produced binds \<^verbatim>\<open>S3CompressionType\<close> to the
  value of \<^verbatim>\<open>GZIP\<close>.
\<close>

theorem to_request_dict_gzip_needs_pipe:
  "((\<exists>e. FileInput_to_request_dict fi = Inl e) \<longleftrightarrow>
      (s3_compression_type fi = Some GZIP \<and> s3_input_mode fi \<noteq> PIPE))
   \<and> (\<forall>e. FileInput_to_request_dict fi = Inl e \<longrightarrow>
          e = ValueError ''Data can only be gzipped when the input mode is Pipe.'')
   \<and> (s3_compression_type fi = Some GZIP \<and> s3_input_mode fi = PIPE \<longrightarrow>
        (\<exists>d f. FileInput_to_request_dict fi = Inr d \<and> s3_input_of d = Some f
               \<and> has_key f ''S3CompressionType''
               \<and> dict_get f ''S3CompressionType'' = Some (PCompressionValue GZIP)))"
  by (auto simp: FileInput_to_request_dict_def Let_def s3_input_of_def dict_get_def
                 dict_set_def has_key_def)

theorem to_request_dict_gzip_needs_pipe_witness:
  "(\<exists>e. FileInput_to_request_dict
          ((FileInput_init ''s3://b/d'' ''/opt/d'' None)
             \<lparr>s3_compression_type := Some GZIP\<rparr>) = Inl e)
   \<and> (\<exists>d f. FileInput_to_request_dict
               ((FileInput_init ''s3://b/d'' ''/opt/d'' None)
                  \<lparr>s3_compression_type := Some GZIP, s3_input_mode := PIPE\<rparr>) = Inr d
            \<and> s3_input_of d = Some f
            \<and> dict_get f ''S3CompressionType'' = Some (PCompressionValue GZIP))"
  using to_request_dict_gzip_needs_pipe
          [of "(FileInput_init ''s3://b/d'' ''/opt/d'' None)\<lparr>s3_compression_type := Some GZIP\<rparr>"]
        to_request_dict_gzip_needs_pipe
          [of "(FileInput_init ''s3://b/d'' ''/opt/d'' None)
                 \<lparr>s3_compression_type := Some GZIP, s3_input_mode := PIPE\<rparr>"]
  by (auto simp: FileInput_init_def)

section \<open>The submission payload\<close>









section \<open>Operations on a submitted job\<close>

lemma start_new_job:
  "start_new processor ins outs w = (Inr job, w') \<Longrightarrow>
     job = ProcessingJob_init (current_job_name processor) ins outs"
  by (cases "to_request_dicts ins") (simp_all add: start_new_def Let_def)

text \<open>
  C8. The record that a submission creates is built from the job name, the inputs and the
  outputs. On it, \<^verbatim>\<open>wait\<close> calls \<^verbatim>\<open>logs_for_processing_job\<close> (with logs) or
  \<^verbatim>\<open>wait_for_processing_job\<close> (without), \<^verbatim>\<open>describe\<close> calls \<^verbatim>\<open>describe_analytics_job\<close> and
  returns its response, and \<^verbatim>\<open>stop\<close> calls \<^verbatim>\<open>stop_processing_job\<close>: each call is keyed by
  the job name the record was built with, it is the only call made, and every operation,
  \<^verbatim>\<open>describe\<close> among them, leaves the record as it was.
\<close>

theorem job_operations_keyed_by_job_name:
  "fst (wait True (ProcessingJob_init jn ins outs, w)) = ProcessingJob_init jn ins outs
   \<and> calls (snd (wait True (ProcessingJob_init jn ins outs, w)))
       = calls w @ [LogsForProcessingJob jn True]
   \<and> fst (wait False (ProcessingJob_init jn ins outs, w)) = ProcessingJob_init jn ins outs
   \<and> calls (snd (wait False (ProcessingJob_init jn ins outs, w)))
       = calls w @ [WaitForProcessingJob jn]
   \<and> fst (describe c print_response (ProcessingJob_init jn ins outs, w)) = describe_response c jn
   \<and> fst (snd (describe c print_response (ProcessingJob_init jn ins outs, w)))
       = ProcessingJob_init jn ins outs
   \<and> calls (snd (snd (describe c print_response (ProcessingJob_init jn ins outs, w))))
       = calls w @ [DescribeAnalyticsJob jn]
   \<and> fst (stop (ProcessingJob_init jn ins outs, w)) = ProcessingJob_init jn ins outs
   \<and> calls (snd (stop (ProcessingJob_init jn ins outs, w)))
       = calls w @ [StopProcessingJob jn]"
  by (simp add: wait_def describe_def stop_def name_def ProcessingJob_init_def do_call_def
                print_def Let_def)

section \<open>Script-name resolution\<close>

text \<open>
  C6. A source is remote when its scheme is \<^verbatim>\<open>s3\<close>, and otherwise a local directory, an
  existing local file, or neither. A directory without a script name fails with the
  validation error that names the missing script name; a remote source or a directory
  with a script name gives that name as it is; a remote source without a script name, or
  an existing local file, gives the final path segment of the source; a local path that is
  neither a file nor a directory fails with the validation error that says it does not
  exist.
\<close>

theorem get_customer_script_name_cases:
  "(isdir c src \<and> script_name = None \<longrightarrow>
      get_customer_script_name c src script_name = Inl (ValueError missing_script_name_message))
   \<and> ((urlparse_scheme c src = ''s3'' \<or> isdir c src) \<and> script_name = Some n \<longrightarrow>
      get_customer_script_name c src script_name = Inr n)
   \<and> (\<not> isdir c src
        \<and> (urlparse_scheme c src = ''s3'' \<and> script_name = None
            \<or> urlparse_scheme c src \<noteq> ''s3'' \<and> isfile c src) \<longrightarrow>
      get_customer_script_name c src script_name = Inr (basename src))
   \<and> (urlparse_scheme c src \<noteq> ''s3'' \<and> \<not> isdir c src \<and> \<not> isfile c src \<longrightarrow>
      get_customer_script_name c src script_name
        = Inl (ValueError ''The file or directory you specified does not exist.''))"
  by (cases script_name) (simp_all add: get_customer_script_name_def)


theorem get_customer_script_name_cases_witness:
  "get_customer_script_name demo_collab ''dir/'' None
     = Inl (ValueError missing_script_name_message)
   \<and> get_customer_script_name demo_collab ''dir/'' (Some ''run.py'') = Inr ''run.py''
   \<and> get_customer_script_name demo_collab ''s3://bucket/code/run.py'' None = Inr ''run.py''
   \<and> get_customer_script_name demo_collab ''script.sh'' None = Inr ''script.sh''
   \<and> get_customer_script_name demo_collab ''missing.py'' None
     = Inl (ValueError ''The file or directory you specified does not exist.'')"
  using get_customer_script_name_cases [of demo_collab "''dir/''" None]
        get_customer_script_name_cases [of demo_collab "''dir/''" "Some ''run.py''" "''run.py''"]
        get_customer_script_name_cases [of demo_collab "''s3://bucket/code/run.py''" None]
        get_customer_script_name_cases [of demo_collab "''script.sh''" None]
        get_customer_script_name_cases [of demo_collab "''missing.py''" None]
  by (simp add: demo_collab_def demo_scheme_def basename_def)

section \<open>Normalizing the inputs\<close>







lemma nth_map_enumerate:
  "i < length xs \<Longrightarrow> map (\<lambda>(j, x). f j x) (enumerate k xs) ! i = f (k + i) (xs ! i)"
  by (simp add: nth_enumerate_eq)




lemma ends_with_sep_append:
  "ys \<noteq> [] \<Longrightarrow> ends_with_sep (xs @ ys) = ends_with_sep ys"
  by (cases ys rule: rev_cases) (simp_all add: ends_with_sep_def)

lemma path_join_plain:
  assumes "ends_with_sep p" "plain_component b" "plain_component j" "\<not> starts_with_sep n"
  shows "path_join p [b, j, n] = p @ b @ ''/'' @ j @ ''/'' @ n"
proof -
  from assms(2) have b: "b \<noteq> []" "\<not> starts_with_sep b" "\<not> ends_with_sep b"
    by (simp_all add: plain_component_def)
  from assms(3) have j: "j \<noteq> []" "\<not> starts_with_sep j" "\<not> ends_with_sep j"
    by (simp_all add: plain_component_def)
  have e1: "\<not> ends_with_sep (p @ b)" using b by (simp add: ends_with_sep_append)
  have e2: "\<not> ends_with_sep ((p @ b) @ ''/'' @ j)"
    using ends_with_sep_append [of j "(p @ b) @ ''/''"] j by simp
  have n1: "p @ b \<noteq> []" using b by simp
  have s1: "path_join p [b, j, n] = path_join (p @ b) [j, n]"
    by (subst path_join.simps(2)) (simp add: assms(1) b del: path_join.simps)
  have s2: "path_join (p @ b) [j, n] = path_join ((p @ b) @ ''/'' @ j) [n]"
    by (subst path_join.simps(2)) (simp add: e1 b j del: path_join.simps)
  have s3: "path_join ((p @ b) @ ''/'' @ j) [n] = ((p @ b) @ ''/'' @ j) @ ''/'' @ n"
    using e2 assms(4) by simp
  show ?thesis unfolding s1 s2 s3 by simp
qed

lemma path_join_s3_plain:
  "plain_component b \<Longrightarrow> plain_component j \<Longrightarrow> \<not> starts_with_sep n \<Longrightarrow>
     path_join ''s3://'' [b, j, n] = ''s3://'' @ b @ ''/'' @ j @ ''/'' @ n"
  by (rule path_join_plain) (simp_all add: ends_with_sep_def)





section \<open>Normalizing the outputs\<close>

lemma normalize_outputs_loop_world:
  "snd (normalize_outputs_loop c self k l acc w) = w"
proof (induction l arbitrary: k acc)
  case Nil
  then show ?case by simp
next
  case (Cons x rest)
  show ?case
    by (cases x; cases "current_job_name self") (simp_all add: Cons.IH Let_def)
qed

lemma normalize_outputs_loop_Inr:
  "normalize_outputs_loop c self k l acc w = (Inr outs, w') \<Longrightarrow>
     outs = acc @ map (\<lambda>(i, x). normalized_output c (current_job_name self) i x) (enumerate k l)
     \<and> (\<forall>x\<in>set l. (\<forall>v. x \<noteq> OutputOther v)
            \<and> ((\<exists>s. x = OutputStr s) \<longrightarrow> current_job_name self \<noteq> None))"
proof (induction l arbitrary: k acc)
  case Nil
  then show ?case by simp
next
  case (Cons x rest)
  show ?case
  proof (cases x)
    case (OutputStr s)
    show ?thesis
    proof (cases "current_job_name self")
      case None
      with OutputStr Cons.prems show ?thesis by simp
    next
      case (Some job)
      let ?o = "name_output k (FileOutput_init s (path_join ''s3://'' [default_bucket c, job, ''output'']))"
      from Some OutputStr Cons.prems
      have "normalize_outputs_loop c self (Suc k) rest (acc @ [?o]) w = (Inr outs, w')"
        by (simp add: Let_def)
      from Cons.IH [OF this] show ?thesis
        using Some OutputStr by (simp add: normalized_output_def)
    qed
  next
    case (OutputObj fo)
    with Cons.prems
    have "normalize_outputs_loop c self (Suc k) rest (acc @ [name_output k fo]) w
            = (Inr outs, w')"
      by simp
    from Cons.IH [OF this] show ?thesis
      using OutputObj by (simp add: normalized_output_def)
  next
    case (OutputOther v)
    with Cons.prems show ?thesis by simp
  qed
qed

lemma normalize_outputs_loop_total:
  "current_job_name self = Some job \<Longrightarrow> \<forall>x\<in>set l. \<forall>v. x \<noteq> OutputOther v \<Longrightarrow>
     \<exists>outs. normalize_outputs_loop c self k l acc w = (Inr outs, w)"
proof (induction l arbitrary: k acc)
  case Nil
  then show ?case by simp
next
  case (Cons x rest)
  from Cons.prems have rest: "\<forall>x\<in>set rest. \<forall>v. x \<noteq> OutputOther v" by simp
  show ?case
  proof (cases x)
    case (OutputStr s)
    then show ?thesis using Cons.IH [OF Cons.prems(1) rest] Cons.prems(1) by (simp add: Let_def)
  next
    case (OutputObj fo)
    then show ?thesis using Cons.IH [OF Cons.prems(1) rest] by simp
  next
    case (OutputOther v)
    with Cons.prems show ?thesis by simp
  qed
qed


text \<open>
  C5. \<^verbatim>\<open>_normalize_outputs\<close> makes no call, so it uploads nothing: the world it leaves is
  the world it found. When it returns, the list returned has the length of the list given;
  at the position of a string \<^verbatim>\<open>X\<close> stands the descriptor that \<^verbatim>\<open>FileOutput\<close> builds from
  the source \<^verbatim>\<open>X\<close> and the destination \<^verbatim>\<open>os.path.join("s3://", default_bucket, job_name, "output")\<close>,
  named \<^verbatim>\<open>output-\<close> followed by the 1-based position; at the position of a \<^verbatim>\<open>FileOutput\<close>
  stands that descriptor, named in the same way when it had no name. It returns whenever
  the job name is set and every element is a string or a \<^verbatim>\<open>FileOutput\<close>. For a plain bucket
  and job name the destination is \<^verbatim>\<open>s3://<bucket>/<job-name>/output\<close>.
\<close>

theorem normalize_outputs_strings:
  "snd (normalize_outputs c self arg w) = w
   \<and> (\<forall>outs w'. normalize_outputs c self (Some l) w = (Inr outs, w') \<longrightarrow>
        length outs = length l
        \<and> (\<forall>i<length l.
              (\<forall>X. l ! i = OutputStr X \<longrightarrow>
                 (\<exists>job. current_job_name self = Some job
                    \<and> outs ! i =
                        \<lparr> FileOutput.source = X,
                          FileOutput.destination =
                            path_join ''s3://'' [default_bucket c, job, ''output''],
                          output_name = Some (''output-'' @ str_of_nat (Suc i)),
                          kms_key_id = None, s3_upload_mode = UPLOAD_CONTINUOUS \<rparr>))
            \<and> (\<forall>fo. l ! i = OutputObj fo \<longrightarrow>
                  (output_name fo = None \<longrightarrow>
                     outs ! i = fo\<lparr>output_name := Some (''output-'' @ str_of_nat (Suc i))\<rparr>)
                  \<and> (output_name fo \<noteq> None \<longrightarrow> outs ! i = fo))))
   \<and> ((\<forall>x\<in>set l. \<forall>v. x \<noteq> OutputOther v) \<and> current_job_name self \<noteq> None \<longrightarrow>
        (\<exists>outs. normalize_outputs c self (Some l) w = (Inr outs, w)))
   \<and> (plain_component (default_bucket c) \<longrightarrow>
        (\<forall>job. plain_component job \<longrightarrow>
           path_join ''s3://'' [default_bucket c, job, ''output'']
             = ''s3://'' @ default_bucket c @ ''/'' @ job @ ''/output''))"
proof (intro conjI allI impI)
  show "snd (normalize_outputs c self arg w) = w"
    by (cases arg) (simp_all add: normalize_outputs_def normalize_outputs_loop_world)
next
  fix outs w'
  assume r: "normalize_outputs c self (Some l) w = (Inr outs, w')"
  then have "normalize_outputs_loop c self 1 l [] w = (Inr outs, w')"
    by (simp add: normalize_outputs_def)
  from normalize_outputs_loop_Inr [OF this]
  have o: "outs = map (\<lambda>(i, x). normalized_output c (current_job_name self) i x) (enumerate 1 l)"
    and j: "\<forall>x\<in>set l. (\<forall>v. x \<noteq> OutputOther v)
            \<and> ((\<exists>s. x = OutputStr s) \<longrightarrow> current_job_name self \<noteq> None)"
    by simp_all
  show "length outs = length l" using o by simp
  fix i assume i: "i < length l"
  have oi: "outs ! i = normalized_output c (current_job_name self) (Suc i) (l ! i)"
    using nth_map_enumerate [OF i, of "normalized_output c (current_job_name self)" 1] o
    by simp
  show "\<exists>job. current_job_name self = Some job
          \<and> outs ! i =
              \<lparr> FileOutput.source = X,
                FileOutput.destination = path_join ''s3://'' [default_bucket c, job, ''output''],
                output_name = Some (''output-'' @ str_of_nat (Suc i)),
                kms_key_id = None, s3_upload_mode = UPLOAD_CONTINUOUS \<rparr>"
    if X: "l ! i = OutputStr X" for X
  proof -
    from i have "l ! i \<in> set l" by simp
    with j X have "current_job_name self \<noteq> None" by auto
    then obtain job where job: "current_job_name self = Some job" by auto
    show ?thesis
      apply (rule exI [of _ job])
      using job X by (simp add: oi normalized_output_def name_output_def FileOutput_init_def)
  qed
  show "outs ! i = fo\<lparr>output_name := Some (''output-'' @ str_of_nat (Suc i))\<rparr>"
    if "l ! i = OutputObj fo" "output_name fo = None" for fo
    using that by (simp add: oi normalized_output_def name_output_def)
  show "outs ! i = fo"
    if "l ! i = OutputObj fo" "output_name fo \<noteq> None" for fo
    using that
    by (cases "output_name fo") (simp_all add: oi normalized_output_def name_output_def)
next
  assume a: "(\<forall>x\<in>set l. \<forall>v. x \<noteq> OutputOther v) \<and> current_job_name self \<noteq> None"
  then obtain job where job: "current_job_name self = Some job" by auto
  from a have "\<forall>x\<in>set l. \<forall>v. x \<noteq> OutputOther v" by simp
  from normalize_outputs_loop_total [OF job this, of c 1 "[]" w]
  show "\<exists>outs. normalize_outputs c self (Some l) w = (Inr outs, w)"
    by (simp add: normalize_outputs_def)
next
  fix job
  assume "plain_component (default_bucket c)" "plain_component job"
  then have "path_join ''s3://'' [default_bucket c, job, ''output'']
               = ''s3://'' @ default_bucket c @ ''/'' @ job @ ''/'' @ ''output''"
    by (intro path_join_s3_plain) (simp_all add: starts_with_sep_def)
  then show "path_join ''s3://'' [default_bucket c, job, ''output'']
               = ''s3://'' @ default_bucket c @ ''/'' @ job @ ''/output''"
    by simp
qed

theorem normalize_outputs_strings_witness:
  "\<exists>outs. normalize_outputs demo_collab demo_named_processor (Some demo_outputs) demo_world
             = (Inr outs, demo_world)
     \<and> length outs = 3
     \<and> outs ! 0 = \<lparr> FileOutput.source = ''/opt/ml/out'',
                     FileOutput.destination = ''s3://bucket/job/output'',
                     output_name = Some ''output-1'',
                     kms_key_id = None, s3_upload_mode = UPLOAD_CONTINUOUS \<rparr>
     \<and> output_name (outs ! 1) = Some ''res''
     \<and> outs ! 2 = \<lparr> FileOutput.source = ''/opt/ml/more'',
                     FileOutput.destination = ''s3://bucket/job/output'',
                     output_name = Some ''output-3'',
                     kms_key_id = None, s3_upload_mode = UPLOAD_CONTINUOUS \<rparr>"
proof -
  note T = normalize_outputs_strings
             [of demo_collab demo_named_processor _ demo_world demo_outputs]
  have "(\<forall>x\<in>set demo_outputs. \<forall>v. x \<noteq> OutputOther v)
        \<and> current_job_name demo_named_processor \<noteq> None"
    by (simp add: demo_outputs_def demo_named_processor_def)
  with T [THEN conjunct2, THEN conjunct2, THEN conjunct1]
  obtain outs where
    r: "normalize_outputs demo_collab demo_named_processor (Some demo_outputs) demo_world
          = (Inr outs, demo_world)"
    by (elim impE exE)
  note F = T [THEN conjunct2, THEN conjunct1, rule_format, OF r]
  have pl: "plain_component (default_bucket demo_collab)" "plain_component ''job''"
    by (simp_all add: plain_component_def starts_with_sep_def ends_with_sep_def demo_collab_def)
  from T [THEN conjunct2, THEN conjunct2, THEN conjunct2, rule_format, OF pl]
  have d: "path_join ''s3://'' [default_bucket demo_collab, ''job'', ''output'']
             = ''s3://bucket/job/output''"
    by (simp add: demo_collab_def)
  have j: "current_job_name demo_named_processor = Some ''job''"
    by (simp add: demo_named_processor_def)
  from F have len: "length outs = 3" by (simp add: demo_outputs_def)
  from F have o0: "outs ! 0 = \<lparr> FileOutput.source = ''/opt/ml/out'',
                     FileOutput.destination = ''s3://bucket/job/output'',
                     output_name = Some ''output-1'',
                     kms_key_id = None, s3_upload_mode = UPLOAD_CONTINUOUS \<rparr>"
    by (auto simp: demo_outputs_def j d str_of_nat.simps simp del: path_join.simps
             dest!: spec [of _ "0::nat"])
  from F have o1: "output_name (outs ! 1) = Some ''res''"
    by (auto simp: demo_outputs_def FileOutput_init_def dest!: spec [of _ "1::nat"])
  from F have o2: "outs ! 2 = \<lparr> FileOutput.source = ''/opt/ml/more'',
                     FileOutput.destination = ''s3://bucket/job/output'',
                     output_name = Some ''output-3'',
                     kms_key_id = None, s3_upload_mode = UPLOAD_CONTINUOUS \<rparr>"
    by (auto simp: demo_outputs_def j d str_of_nat.simps simp del: path_join.simps
             dest!: spec [of _ "2::nat"])
  show ?thesis
    apply (rule exI [of _ outs])
    using r len o0 o1 o2 by simp
qed

section \<open>The entrypoint of a script\<close>

lemma basename_append_nosep:
  "CHR ''/'' \<notin> set s \<Longrightarrow> basename (p @ s) = basename p @ s"
proof -
  assume a: "CHR ''/'' \<notin> set s"
  have "takeWhile (\<lambda>c. c \<noteq> CHR ''/'') (rev s @ rev p)
          = rev s @ takeWhile (\<lambda>c. c \<noteq> CHR ''/'') (rev p)"
    by (rule takeWhile_append2) (use a in auto)
  then show ?thesis by (simp add: basename_def)
qed

lemma basename_no_sep: "CHR ''/'' \<notin> set (basename n)"
  using set_takeWhileD [of "CHR ''/''" "\<lambda>c. c \<noteq> CHR ''/''" "rev n"]
  by (auto simp: basename_def)

lemma dirname_basename:
  "n = rev (dropWhile (\<lambda>c. c \<noteq> CHR ''/'') (rev n)) @ basename n"
proof -
  have "rev (takeWhile (\<lambda>c. c \<noteq> CHR ''/'') (rev n) @ dropWhile (\<lambda>c. c \<noteq> CHR ''/'') (rev n)) = n"
    by simp
  then have "rev (dropWhile (\<lambda>c. c \<noteq> CHR ''/'') (rev n))
               @ rev (takeWhile (\<lambda>c. c \<noteq> CHR ''/'') (rev n)) = n"
    by (simp only: rev_append)
  then show ?thesis unfolding basename_def by (rule sym)
qed

lemma takeWhile_dropWhile_nil: "takeWhile P (dropWhile P xs) = []"
  by (induction xs) simp_all

lemma basename_after_dir:
  assumes "CHR ''/'' \<notin> set s"
  shows "basename (rev (dropWhile (\<lambda>c. c \<noteq> CHR ''/'') (rev n)) @ s) = s"
proof -
  let ?d = "dropWhile (\<lambda>c. c \<noteq> CHR ''/'') (rev n)"
  have "takeWhile (\<lambda>c. c \<noteq> CHR ''/'') ?d = []"
    by (rule takeWhile_dropWhile_nil)
  then have "basename (rev ?d) = []" by (simp add: basename_def)
  with basename_append_nosep [OF assms, of "rev ?d"] show ?thesis by simp
qed

lemma segment_ext_append:
  assumes "CHR ''.'' \<notin> set x"
  shows "segment_ext (b @ CHR ''.'' # x)
           = (if \<exists>c\<in>set b. c \<noteq> CHR ''.'' then CHR ''.'' # x else [])"
proof -
  have r: "rev (b @ CHR ''.'' # x) = rev x @ CHR ''.'' # rev b" by simp
  have t: "takeWhile (\<lambda>c. c \<noteq> CHR ''.'') (rev x @ CHR ''.'' # rev b) = rev x"
  proof -
    have "takeWhile (\<lambda>c. c \<noteq> CHR ''.'') (rev x @ CHR ''.'' # rev b)
            = takeWhile (\<lambda>c. c \<noteq> CHR ''.'') (rev x)"
      by (rule takeWhile_tail) simp
    also have "\<dots> = rev x" using assms by (auto simp: takeWhile_eq_all_conv)
    finally show ?thesis .
  qed
  have d: "dropWhile (\<lambda>c. c \<noteq> CHR ''.'') (rev x @ CHR ''.'' # rev b) = CHR ''.'' # rev b"
  proof -
    have "dropWhile (\<lambda>c. c \<noteq> CHR ''.'') (rev x @ CHR ''.'' # rev b)
            = dropWhile (\<lambda>c. c \<noteq> CHR ''.'') (CHR ''.'' # rev b)"
      by (rule dropWhile_append2) (use assms in auto)
    then show ?thesis by simp
  qed
  show ?thesis
    unfolding segment_ext_def r t d by (simp add: Let_def)
qed

lemma segment_ext_dot:
  assumes "segment_ext seg = CHR ''.'' # x"
  shows "\<exists>b. seg = b @ CHR ''.'' # x \<and> (\<exists>c\<in>set b. c \<noteq> CHR ''.'')"
proof -
  define t where "t = takeWhile (\<lambda>c. c \<noteq> CHR ''.'') (rev seg)"
  define d where "d = dropWhile (\<lambda>c. c \<noteq> CHR ''.'') (rev seg)"
  have dot: "CHR ''.'' \<in> set seg"
  proof (rule ccontr)
    assume "CHR ''.'' \<notin> set seg"
    then have "segment_ext seg = []" by (simp add: segment_ext_def)
    with assms show False by simp
  qed
  then have eq: "segment_ext seg
      = (if \<exists>c\<in>set (rev (tl d)). c \<noteq> CHR ''.'' then CHR ''.'' # rev t else [])"
    unfolding segment_ext_def t_def d_def
    by (simp only: Let_def not_True_eq_False if_False)
  have st: "\<exists>c\<in>set (rev (tl d)). c \<noteq> CHR ''.''"
  proof (rule ccontr)
    assume "\<not> (\<exists>c\<in>set (rev (tl d)). c \<noteq> CHR ''.'')"
    with eq have "segment_ext seg = []" by simp
    with assms show False by simp
  qed
  with eq assms have x: "rev t = x" by simp
  from dot have dn: "d \<noteq> []" by (simp add: d_def dropWhile_eq_Nil_conv)
  then have "hd d = CHR ''.''"
    using hd_dropWhile [of "\<lambda>c. c \<noteq> CHR ''.''" "rev seg"] by (simp add: d_def)
  with dn have dd: "d = CHR ''.'' # tl d" by (cases d) simp_all
  have "rev (t @ d) = seg" by (simp add: t_def d_def)
  then have "seg = rev d @ rev t" by simp
  also have "rev d = rev (tl d) @ [CHR ''.'']" by (subst dd) simp
  finally have "seg = rev (tl d) @ CHR ''.'' # x" using x by simp
  with st show ?thesis by (intro exI [of _ "rev (tl d)"] conjI)
qed

lemma splitext_ext_iff:
  assumes "CHR ''.'' \<notin> set x" "CHR ''/'' \<notin> set x"
  shows "splitext_ext n = CHR ''.'' # x \<longleftrightarrow>
           (\<exists>stem. n = stem @ CHR ''.'' # x \<and> (\<exists>c\<in>set (basename stem). c \<noteq> CHR ''.''))"
proof
  assume "splitext_ext n = CHR ''.'' # x"
  then have "segment_ext (basename n) = CHR ''.'' # x" by (simp add: splitext_ext_def)
  from segment_ext_dot [OF this] obtain b where
    b: "basename n = b @ CHR ''.'' # x" "\<exists>c\<in>set b. c \<noteq> CHR ''.''" by auto
  let ?dir = "rev (dropWhile (\<lambda>c. c \<noteq> CHR ''/'') (rev n))"
  from basename_no_sep [of n] b(1) have nb: "CHR ''/'' \<notin> set b" by simp
  have n: "n = (?dir @ b) @ CHR ''.'' # x"
    using dirname_basename [of n] b(1) by simp
  have "basename (?dir @ b) = b" by (rule basename_after_dir [OF nb])
  with b(2) n show "\<exists>stem. n = stem @ CHR ''.'' # x \<and> (\<exists>c\<in>set (basename stem). c \<noteq> CHR ''.'')"
    by (intro exI [of _ "?dir @ b"]) simp
next
  assume "\<exists>stem. n = stem @ CHR ''.'' # x \<and> (\<exists>c\<in>set (basename stem). c \<noteq> CHR ''.'')"
  then obtain stem where s: "n = stem @ CHR ''.'' # x" "\<exists>c\<in>set (basename stem). c \<noteq> CHR ''.''"
    by auto
  have "CHR ''/'' \<notin> set (CHR ''.'' # x)" using assms(2) by simp
  from basename_append_nosep [OF this, of stem] s(1)
  have "basename n = basename stem @ CHR ''.'' # x" by simp
  then show "splitext_ext n = CHR ''.'' # x"
    using s(2) by (simp add: splitext_ext_def segment_ext_append [OF assms(1)])
qed

lemma splitext_ext_examples:
  "splitext_ext ''.py'' = []" "splitext_ext ''run.py'' = ''.py''"
  "splitext_ext ''script.sh'' = ''.sh''" "splitext_ext ''notes.txt'' = ''.txt''"
  by (simp_all add: splitext_ext_def segment_ext_def basename_def)

lemma demo_script_processor_py_version: "py_version demo_script_processor = ''py3''"
  by (simp add: demo_script_processor_def ScriptModeProcessor_init_def Processor.defs
                Processor_init_def)

text \<open>
  C7, as amended. The interpreter follows the extension that \<^verbatim>\<open>os.path.splitext\<close> finds in
  the script name: for \<^verbatim>\<open>.py\<close> it is \<^verbatim>\<open>python3\<close> under the tag \<^verbatim>\<open>py3\<close>, \<^verbatim>\<open>python2\<close> under
  \<^verbatim>\<open>py2\<close> and \<^verbatim>\<open>python\<close> under any other tag; for \<^verbatim>\<open>.sh\<close> it is \<^verbatim>\<open>bash\<close>; any other
  extension raises the validation error. When an interpreter is found, \<^verbatim>\<open>_set_entrypoint\<close>
  sets the entrypoint to the two-element command made of the interpreter and
  \<^verbatim>\<open>os.path.join("/code/", "source", script_name)\<close>, which is \<^verbatim>\<open>/code/source/<script-name>\<close>
  when the script name does not begin with the separator; otherwise it raises the same
  error. A name has the extension \<^verbatim>\<open>.py\<close> (or \<^verbatim>\<open>.sh\<close>) exactly when it ends in it and its
  final path segment has, before that ending, a character other than a dot.
\<close>

theorem execution_program_by_extension:
  "(splitext_ext n = ''.py'' \<and> py_version self = ''py3'' \<longrightarrow>
      get_execution_program self n = Inr ''python3'')
   \<and> (splitext_ext n = ''.py'' \<and> py_version self = ''py2'' \<longrightarrow>
      get_execution_program self n = Inr ''python2'')
   \<and> (splitext_ext n = ''.py'' \<and> py_version self \<noteq> ''py3'' \<and> py_version self \<noteq> ''py2'' \<longrightarrow>
      get_execution_program self n = Inr ''python'')
   \<and> (splitext_ext n = ''.sh'' \<longrightarrow> get_execution_program self n = Inr ''bash'')
   \<and> (splitext_ext n \<noteq> ''.py'' \<and> splitext_ext n \<noteq> ''.sh'' \<longrightarrow>
      get_execution_program self n = Inl (ValueError unsupported_script_message))
   \<and> (\<forall>prog. get_execution_program self n = Inr prog \<longrightarrow>
        set_entrypoint self n
          = Inr (self\<lparr>entrypoint := Some [prog, path_join ''/code/'' [''source'', n]]\<rparr>))
   \<and> (\<forall>e. get_execution_program self n = Inl e \<longrightarrow> set_entrypoint self n = Inl e)
   \<and> (\<not> starts_with_sep n \<longrightarrow> path_join ''/code/'' [''source'', n] = ''/code/source/'' @ n)
   \<and> (splitext_ext n = ''.py'' \<longleftrightarrow>
        (\<exists>stem. n = stem @ ''.py'' \<and> (\<exists>c\<in>set (basename stem). c \<noteq> CHR ''.'')))
   \<and> (splitext_ext n = ''.sh'' \<longleftrightarrow>
        (\<exists>stem. n = stem @ ''.sh'' \<and> (\<exists>c\<in>set (basename stem). c \<noteq> CHR ''.'')))"
proof (intro conjI allI impI)
  show "get_execution_program self n = Inr ''python3''"
    if "splitext_ext n = ''.py'' \<and> py_version self = ''py3''"
    using that by (simp add: get_execution_program_def)
  show "get_execution_program self n = Inr ''python2''"
    if "splitext_ext n = ''.py'' \<and> py_version self = ''py2''"
    using that by (simp add: get_execution_program_def)
  show "get_execution_program self n = Inr ''python''"
    if "splitext_ext n = ''.py'' \<and> py_version self \<noteq> ''py3'' \<and> py_version self \<noteq> ''py2''"
    using that by (simp add: get_execution_program_def)
  show "get_execution_program self n = Inr ''bash''" if "splitext_ext n = ''.sh''"
    using that by (simp add: get_execution_program_def)
  show "get_execution_program self n = Inl (ValueError unsupported_script_message)"
    if "splitext_ext n \<noteq> ''.py'' \<and> splitext_ext n \<noteq> ''.sh''"
    using that by (simp add: get_execution_program_def)
  show "set_entrypoint self n
          = Inr (self\<lparr>entrypoint := Some [prog, path_join ''/code/'' [''source'', n]]\<rparr>)"
    if "get_execution_program self n = Inr prog" for prog
    using that
    by (simp add: set_entrypoint_def CODE_CONTAINER_BASE_PATH_def CODE_CONTAINER_INPUT_NAME_def
             del: path_join.simps)
  show "set_entrypoint self n = Inl e" if "get_execution_program self n = Inl e" for e
    using that by (simp add: set_entrypoint_def del: path_join.simps)
  show "path_join ''/code/'' [''source'', n] = ''/code/source/'' @ n"
    if "\<not> starts_with_sep n"
    using that by (simp add: starts_with_sep_def ends_with_sep_def)
  show "splitext_ext n = ''.py'' \<longleftrightarrow>
        (\<exists>stem. n = stem @ ''.py'' \<and> (\<exists>c\<in>set (basename stem). c \<noteq> CHR ''.''))"
    using splitext_ext_iff [of "''py''" n] by simp
  show "splitext_ext n = ''.sh'' \<longleftrightarrow>
        (\<exists>stem. n = stem @ ''.sh'' \<and> (\<exists>c\<in>set (basename stem). c \<noteq> CHR ''.''))"
    using splitext_ext_iff [of "''sh''" n] by simp
qed

theorem execution_program_by_extension_witness:
  "get_execution_program demo_script_processor ''run.py'' = Inr ''python3''
   \<and> set_entrypoint demo_script_processor ''script.sh''
       = Inr (demo_script_processor\<lparr>entrypoint := Some [''bash'', ''/code/source/script.sh'']\<rparr>)
   \<and> get_execution_program demo_script_processor ''notes.txt''
       = Inl (ValueError unsupported_script_message)"
proof -
  note A = execution_program_by_extension [of "''run.py''" demo_script_processor]
  note B = execution_program_by_extension [of "''script.sh''" demo_script_processor]
  note C = execution_program_by_extension [of "''notes.txt''" demo_script_processor]
  have a: "get_execution_program demo_script_processor ''run.py'' = Inr ''python3''"
    using A [THEN conjunct1] splitext_ext_examples(2) demo_script_processor_py_version by simp
  have "get_execution_program demo_script_processor ''script.sh'' = Inr ''bash''"
    using B [THEN conjunct2, THEN conjunct2, THEN conjunct2, THEN conjunct1]
          splitext_ext_examples(3) by simp
  moreover have "path_join ''/code/'' [''source'', ''script.sh''] = ''/code/source/script.sh''"
    by (simp add: starts_with_sep_def ends_with_sep_def)
  ultimately have b: "set_entrypoint demo_script_processor ''script.sh''
       = Inr (demo_script_processor\<lparr>entrypoint := Some [''bash'', ''/code/source/script.sh'']\<rparr>)"
    using B [THEN conjunct2, THEN conjunct2, THEN conjunct2, THEN conjunct2, THEN conjunct2,
             THEN conjunct1]
    by (simp del: path_join.simps)
  have c: "get_execution_program demo_script_processor ''notes.txt''
       = Inl (ValueError unsupported_script_message)"
    using C [THEN conjunct2, THEN conjunct2, THEN conjunct2, THEN conjunct2, THEN conjunct1]
          splitext_ext_examples(4) by simp
  from a b c show ?thesis by simp
qed

text \<open>
  C7, as stated, fails: the name \<^verbatim>\<open>.py\<close> ends in \<^verbatim>\<open>.py\<close>, yet \<^verbatim>\<open>os.path.splitext\<close> gives
  it no extension (a leading dot belongs to the name), so under the tag \<^verbatim>\<open>py3\<close> it gets no
  interpreter but the validation error.
\<close>

theorem execution_program_dot_py_counterexample:
  "ends_with ''.py'' ''.py'' \<and> py_version demo_script_processor = ''py3''
   \<and> get_execution_program demo_script_processor ''.py''
       = Inl (ValueError unsupported_script_message)"
  using splitext_ext_examples(1) demo_script_processor_py_version
  by (simp add: ends_with_def get_execution_program_def)

section \<open>A script-mode run without an inputs list\<close>

lemma generate_current_job_name_calls:
  "calls (snd (generate_current_job_name c self jn w)) = calls w"
  by (cases jn) (simp_all add: generate_current_job_name_def Let_def)

lemma script_run_name_error:
  assumes "get_customer_script_name c src sn = Inl e"
  shows "script_run c src sn ins outs dw logs jn (self, w)
           = (Inl e, (self\<lparr>current_job_name := Some (fst (generate_current_job_name c self jn w))\<rparr>,
                      snd (generate_current_job_name c self jn w)))"
  using assms
  by (cases "generate_current_job_name c self jn w") (simp add: script_run_def Let_def)

lemma script_run_no_inputs:
  assumes "get_customer_script_name c src sn = Inr nm"
  shows "script_run c src sn None outs dw logs jn (self, w)
           = (Inl (AttributeError ''append''),
              (self\<lparr>current_job_name := Some (fst (generate_current_job_name c self jn w))\<rparr>,
               do_call (Upload src
                          (path_join ''s3://''
                             [default_bucket c, fst (generate_current_job_name c self jn w),
                              ''source'']))
                 (snd (generate_current_job_name c self jn w))))"
  using assms
  by (cases "generate_current_job_name c self jn w")
     (simp add: script_run_def Let_def upload_source_def convert_source_and_add_to_inputs_def
                CODE_CONTAINER_INPUT_NAME_def del: path_join.simps)

text \<open>
  C10, as amended. In a script-mode run whose \<^verbatim>\<open>inputs\<close> is \<^verbatim>\<open>None\<close>: when the script name
  is resolved, the run raises the \<^verbatim>\<open>AttributeError\<close> of \<^verbatim>\<open>None.append\<close>, after exactly one
  call, the upload of the source to \<^verbatim>\<open>os.path.join("s3://", default_bucket, job_name, "source")\<close>;
  when the resolution of the script name raises, the run raises that error and makes no
  call at all. In either case no submission is made, and the processor's list of jobs and
  its latest job stay as they were.
\<close>

theorem script_run_without_inputs:
  "(\<forall>nm. get_customer_script_name c src sn = Inr nm \<longrightarrow>
       fst (script_run c src sn None outs dw logs jn (self, w)) = Inl (AttributeError ''append'')
     \<and> calls (snd (snd (script_run c src sn None outs dw logs jn (self, w))))
         = calls w @ [Upload src
                        (path_join ''s3://''
                           [default_bucket c, fst (generate_current_job_name c self jn w),
                            ''source''])])
   \<and> (\<forall>e. get_customer_script_name c src sn = Inl e \<longrightarrow>
       fst (script_run c src sn None outs dw logs jn (self, w)) = Inl e
     \<and> calls (snd (snd (script_run c src sn None outs dw logs jn (self, w)))) = calls w)
   \<and> (\<forall>a. Process a \<in> set (calls (snd (snd (script_run c src sn None outs dw logs jn (self, w)))))
          \<longrightarrow> Process a \<in> set (calls w))
   \<and> jobs (fst (snd (script_run c src sn None outs dw logs jn (self, w)))) = jobs self
   \<and> latest_job (fst (snd (script_run c src sn None outs dw logs jn (self, w)))) = latest_job self"
proof (cases "get_customer_script_name c src sn")
  case (Inl e)
  show ?thesis
    by (simp add: script_run_name_error [OF Inl] Inl generate_current_job_name_calls)
next
  case (Inr nm)
  show ?thesis
    by (simp add: script_run_no_inputs [OF Inr] Inr generate_current_job_name_calls do_call_def
             del: path_join.simps)
qed

theorem script_run_without_inputs_witness:
  "fst (script_run demo_collab ''script.py'' None None None True True None
          (demo_script_processor, demo_world)) = Inl (AttributeError ''append'')
   \<and> calls (snd (snd (script_run demo_collab ''script.py'' None None None True True None
                        (demo_script_processor, demo_world))))
       = [Upload ''script.py'' ''s3://bucket/image-0/source'']"
proof -
  have n: "get_customer_script_name demo_collab ''script.py'' None = Inr ''script.py''"
    by (simp add: get_customer_script_name_def demo_collab_def demo_scheme_def basename_def)
  have g: "fst (generate_current_job_name demo_collab demo_script_processor None demo_world)
             = ''image-0''"
    by (simp add: generate_current_job_name_def demo_collab_def demo_script_processor_def
                  ScriptModeProcessor_init_def Processor_init_def Processor.defs demo_world_def
                  str_of_nat.simps Let_def)
  have p: "path_join ''s3://'' [default_bucket demo_collab, ''image-0'', ''source'']
             = ''s3://bucket/image-0/source''"
    by (simp add: demo_collab_def starts_with_sep_def ends_with_sep_def)
  have w: "calls demo_world = []" by (simp add: demo_world_def)
  from script_run_without_inputs
         [of demo_collab "''script.py''" None None True True None demo_script_processor demo_world,
          THEN conjunct1, rule_format, OF n]
  show ?thesis by (simp add: g p w del: path_join.simps)
qed

text \<open>
  C10, as stated, fails: with \<^verbatim>\<open>inputs\<close> unset and a source that does not exist, the run
  raises the validation error of the script-name resolution, before any upload, and never
  reaches the \<^verbatim>\<open>append\<close>.
\<close>

theorem script_run_without_inputs_counterexample:
  "fst (script_run demo_collab ''missing.py'' None None None True True None
          (demo_script_processor, demo_world))
     = Inl (ValueError ''The file or directory you specified does not exist.'')
   \<and> calls (snd (snd (script_run demo_collab ''missing.py'' None None None True True None
                        (demo_script_processor, demo_world)))) = []"
proof -
  have n: "get_customer_script_name demo_collab ''missing.py'' None
             = Inl (ValueError ''The file or directory you specified does not exist.'')"
    by (simp add: get_customer_script_name_def demo_collab_def demo_scheme_def)
  show ?thesis
    by (simp add: script_run_name_error [OF n] generate_current_job_name_calls demo_world_def)
qed

section \<open>The job name of the source upload\<close>

text \<open>
  C9. \<^verbatim>\<open>_upload_source\<close> uploads the whole source, file or directory, to
  \<^verbatim>\<open>os.path.join("s3://", default_bucket, job_name, "source")\<close>, with the job name that
  \<^verbatim>\<open>ScriptModeProcessor.run\<close> has just generated. \<^verbatim>\<open>Processor.run\<close> then generates the job name
  again from the same \<^verbatim>\<open>job_name\<close> argument. When the caller gives no job name, the second
  name is a fresh one: here the source goes to \<^verbatim>\<open>s3://bucket/image-0/source\<close> and the job is
  submitted as \<^verbatim>\<open>image-1\<close>, so the upload is not under the name of the submitted job.
\<close>

theorem script_run_generates_two_names:
  "fst (script_run demo_collab ''script.py'' None (Some []) None False False None
          (demo_script_processor, demo_world)) = Inr ()
   \<and> uploaded_to (snd (snd (script_run demo_collab ''script.py'' None (Some []) None False False
                               None (demo_script_processor, demo_world))))
       = [''s3://bucket/image-0/source'']
   \<and> submitted_names (snd (snd (script_run demo_collab ''script.py'' None (Some []) None False
                                   False None (demo_script_processor, demo_world))))
       = [PStr ''image-1'']"
  by code_simp

end
